theory Spec2Isabelle
  imports Main
begin

section \<open>KuberBank ledger core: the stored procedures and the schema they run on\<close>

text \<open>
  The ledger operations of the repository are the PL/pgSQL functions of
  \<^verbatim>\<open>database/functions/001_banking_functions.sql\<close>; they run on the tables, CHECK and
  UNIQUE constraints and row triggers of \<^verbatim>\<open>database/migrations/001_init_schema.sql\<close>.
  Both files are embedded here: a table is a list of rows (in insertion order), a row is
  a record, a \<^verbatim>\<open>RAISE EXCEPTION\<close>, a constraint violation or an error of the SQL
  analysis of a statement is an \<open>Inl\<close> result, and a function that writes takes the
  database and returns the new one.

  Conventions, all of them visible in the definitions below.
  \<^item> A \<^verbatim>\<open>DECIMAL(15,2)\<close> amount is an \<open>int\<close> number of cents (\<^verbatim>\<open>100.00\<close> is \<open>10000\<close>).
    A value assigned to a \<^verbatim>\<open>DECIMAL(15,2)\<close> variable or column passes
    \<open>numeric_15_2\<close>, which raises beyond 15 digits. The amount parameters are whole
    cents (PostgreSQL does not apply the \<^verbatim>\<open>(15,2)\<close> of a parameter's type).
  \<^item> \<^verbatim>\<open>NOW()\<close> is the argument \<open>now\<close> (seconds), and \<^verbatim>\<open>uuid_generate_v4()\<close> is the
    argument \<open>ref\<close>: the caller of the model supplies what the clock and the random
    generator returned.
  \<^item> A nullable column that a statement tests for NULL, or that a row is created with
    as NULL, has an option type. Columns whose DEFAULT no statement of the repository
    overrides with NULL (\<^verbatim>\<open>overdraft_limit\<close>, \<^verbatim>\<open>current_usage\<close>, \<^verbatim>\<open>status\<close>,
    \<^verbatim>\<open>period\<close>) are plain values.
  \<^item> Columns that no embedded statement reads or writes are left out
    (\<^verbatim>\<open>account_type\<close>, \<^verbatim>\<open>currency\<close>, \<^verbatim>\<open>interest_rate\<close>, \<^verbatim>\<open>ip_address\<close>,
    \<^verbatim>\<open>user_agent\<close>, \<^verbatim>\<open>metadata\<close> of transactions, the \<^verbatim>\<open>message\<close> text of an alert).
  \<^item> An SQL statement of a function body is preceded by the resolution of its column
    names against the variables of the function (\<open>resolve\<close> below), as PL/pgSQL does
    when it first executes the statement. For \<^verbatim>\<open>close_account\<close> and
    \<^verbatim>\<open>reset_daily_limits\<close>, where no name is on both sides, the resolution is a
    lemma.
  \<^item> Row locks (\<^verbatim>\<open>FOR UPDATE\<close>) are not part of the state: the model is of one call at
    a time.
\<close>

subsection \<open>Rows\<close>

type_synonym money = int
type_synonym timestamp = int
type_synonym uuid = nat

datatype account_status = Active | Frozen | Closed | Pending

datatype tx_type = TxDeposit | TxWithdrawal | TxTransfer | TxFee | TxInterest | TxRefund

datatype tx_status = TxPending | TxCompleted | TxFailed | TxReversed | TxCancelled

datatype limit_type = Daily_withdrawal | Daily_transfer | Single_transaction | Monthly_withdrawal

datatype period = Daily | Weekly | Monthly | Per_transaction

datatype severity = Info | Warning | Critical

datatype jvalue = JNum int | JStr string | JTime timestamp

type_synonym jsonb = "(string \<times> jvalue) list"

record account =
  acc_id :: nat
  acc_user_id :: nat
  account_number :: string
  balance :: money
  status :: account_status
  overdraft_limit :: money
  updated_at :: timestamp
  closed_at :: "timestamp option"
  last_transaction_at :: "timestamp option"

record transaction =
  tx_id :: nat
  tx_account_id :: nat
  tx_type :: tx_type
  tx_amount :: money
  balance_before :: "money option"
  balance_after :: "money option"
  description :: string
  reference_number :: uuid
  tx_status :: tx_status
  related_transaction_id :: "nat option"
  related_account_id :: "nat option"
  created_at :: timestamp
  completed_at :: "timestamp option"

record account_limit =
  lim_account_id :: nat
  limit_type :: limit_type
  lim_amount :: money
  period :: period
  current_usage :: money
  reset_at :: "timestamp option"

record alert =
  al_user_id :: nat
  al_account_id :: nat
  al_type :: string
  al_severity :: severity
  al_title :: string

record audit_log =
  au_user_id :: "nat option"
  au_account_id :: "nat option"
  au_action :: string
  au_entity_type :: string
  au_entity_id :: nat
  old_values :: jsonb
  new_values :: jsonb
  au_metadata :: "jsonb option"
  au_created_at :: timestamp

text \<open>The database: the five tables the functions touch and the sequence behind
  \<^verbatim>\<open>transactions.id BIGSERIAL\<close>.\<close>

record db =
  accounts :: "account list"
  transactions :: "transaction list"
  account_limits :: "account_limit list"
  alerts :: "alert list"
  audit_logs :: "audit_log list"
  transactions_id_seq :: nat

text \<open>The error kinds. The first six are the messages the functions raise
  (\<^verbatim>\<open>'Account not found or inactive'\<close>, \<^verbatim>\<open>'... amount must be positive'\<close>,
  \<^verbatim>\<open>'Insufficient funds ...'\<close>, \<^verbatim>\<open>'Daily withdrawal limit exceeded ...'\<close>,
  \<^verbatim>\<open>'Cannot transfer to the same account'\<close>,
  \<^verbatim>\<open>'Cannot close account with non-zero balance'\<close>); the next three are the errors
  PostgreSQL raises for a violated UNIQUE, CHECK or REFERENCES constraint; the last two
  are \<^verbatim>\<open>column reference "..." is ambiguous\<close> (SQLSTATE 42702) and
  \<^verbatim>\<open>numeric field overflow\<close> (SQLSTATE 22003).\<close>

datatype error =
    AccountNotFound
  | InvalidAmount
  | InsufficientFunds
  | LimitExceeded
  | SelfTransfer
  | NonZeroBalance
  | UniqueViolation
  | CheckViolation
  | ForeignKeyViolation
  | AmbiguousColumn
  | NumericOverflow

subsection \<open>Statements of a function body\<close>

text \<open>Statements run in sequence; the first error ends the function.\<close>

definition and_then :: "error + 'a \<Rightarrow> ('a \<Rightarrow> error + 'b) \<Rightarrow> error + 'b" where
  "and_then r f = (case r of Inl e \<Rightarrow> Inl e | Inr x \<Rightarrow> f x)"

text \<open>Name resolution. The parameters of a PL/pgSQL function, the columns of its
  \<^verbatim>\<open>RETURNS TABLE\<close> (they are output parameters) and its \<^verbatim>\<open>DECLARE\<close>d variables are
  all variables of the function body. When an SQL statement of the body refers, without
  a qualifier, to a name that is both such a variable and a column of a table of the
  statement, PL/pgSQL raises \<^verbatim>\<open>column reference "..." is ambiguous\<close> as it first
  executes the statement, before the statement reads, locks or writes a row. This is
  \<^verbatim>\<open>plpgsql.variable_conflict = error\<close>, the default of PostgreSQL; no function of the
  repository carries a \<^verbatim>\<open>#variable_conflict\<close> line and no script of it sets the
  parameter.

  \<open>vars\<close> are the variables of the function and \<open>cols\<close> the unqualified column
  references of the statement: the names in its select list, WHERE clause, RETURNING
  list and in the right-hand sides of SET. (The column list of an INSERT and the
  left-hand sides of SET name columns only.)\<close>

definition ambiguous :: "string list \<Rightarrow> string list \<Rightarrow> bool" where
  "ambiguous vars cols = list_ex (\<lambda>c. c \<in> set vars) cols"

definition resolve :: "string list \<Rightarrow> string list \<Rightarrow> error + unit" where
  "resolve vars cols = (if ambiguous vars cols then Inl AmbiguousColumn else Inr ())"

text \<open>A value stored in a \<^verbatim>\<open>DECIMAL(15,2)\<close> variable or column: at most 13 digits
  before the point, so fewer than \<open>10 ^ 15\<close> cents in absolute value.\<close>

definition numeric_15_2 :: "money \<Rightarrow> error + money" where
  "numeric_15_2 v =
     (if - 1000000000000000 < v \<and> v < 1000000000000000 then Inr v else Inl NumericOverflow)"

subsection \<open>Triggers and constraints of the schema\<close>

text \<open>Of the four trigger functions below, \<^verbatim>\<open>update_updated_at_column\<close>,
  \<^verbatim>\<open>log_balance_change\<close> and \<^verbatim>\<open>update_last_transaction\<close> declare no variable, so
  no column name of their statements has a second reading;
  \<^verbatim>\<open>validate_transaction_amount\<close> declares two.\<close>

text \<open>\<^verbatim>\<open>update_updated_at_column\<close>, BEFORE UPDATE ON accounts.\<close>

definition update_updated_at_column :: "timestamp \<Rightarrow> account \<Rightarrow> account" where
  "update_updated_at_column now new = new\<lparr>updated_at := now\<rparr>"

text \<open>\<^verbatim>\<open>log_balance_change\<close>, AFTER UPDATE ON accounts: one audit row when the balance
  changed, none otherwise.\<close>

definition log_balance_change :: "timestamp \<Rightarrow> account \<Rightarrow> account \<Rightarrow> audit_log list" where
  "log_balance_change now old new =
     (if balance old \<noteq> balance new then
        [\<lparr>au_user_id = None, au_account_id = Some (acc_id new),
          au_action = ''balance_change'', au_entity_type = ''account'',
          au_entity_id = acc_id new,
          old_values = [(''balance'', JNum (balance old)), (''updated_at'', JTime (updated_at old))],
          new_values = [(''balance'', JNum (balance new)), (''updated_at'', JTime (updated_at new))],
          au_metadata = None, au_created_at = now\<rparr>]
      else [])"

text \<open>\<^verbatim>\<open>UPDATE accounts SET ... WHERE id = aid\<close>: every row with that id is rewritten by
  \<open>f\<close>, the BEFORE trigger stamps it, \<^verbatim>\<open>CONSTRAINT positive_balance CHECK (balance >=
  -overdraft_limit)\<close> is checked on the new row, and the AFTER trigger writes the audit row.\<close>

definition update_accounts :: "db \<Rightarrow> timestamp \<Rightarrow> nat \<Rightarrow> (account \<Rightarrow> account) \<Rightarrow> error + db" where
  "update_accounts d now aid f =
     (let olds = filter (\<lambda>a. acc_id a = aid) (accounts d);
          news = map (\<lambda>a. update_updated_at_column now (f a)) olds
      in if list_ex (\<lambda>a. balance a < - overdraft_limit a) news then Inl CheckViolation
         else Inr (d\<lparr>accounts :=
                       map (\<lambda>a. if acc_id a = aid then update_updated_at_column now (f a) else a)
                         (accounts d),
                     audit_logs :=
                       audit_logs d @
                       concat (map (\<lambda>a. log_balance_change now a
                                           (update_updated_at_column now (f a))) olds)\<rparr>))"

text \<open>\<^verbatim>\<open>validate_transaction_amount\<close>, BEFORE INSERT ON transactions: for a withdrawal
  or transfer row the function runs \<^verbatim>\<open>SELECT balance, overdraft_limit INTO
  current_balance, overdraft_limit FROM accounts WHERE id = NEW.account_id\<close> and then
  compares. Its two declared variables are \<^verbatim>\<open>current_balance\<close> and
  \<^verbatim>\<open>overdraft_limit\<close>; the second is also the column the statement selects. What
  follows the resolution is the rest of the body: when no account has the id, the
  SELECT leaves both variables NULL and the comparison is not true, so nothing is
  raised.\<close>

definition validate_transaction_amount_vars :: "string list" where
  "validate_transaction_amount_vars = [''current_balance'', ''overdraft_limit'']"

definition validate_transaction_amount :: "db \<Rightarrow> transaction \<Rightarrow> error + transaction" where
  "validate_transaction_amount d new =
     (if tx_type new = TxWithdrawal \<or> tx_type new = TxTransfer then
        and_then (resolve validate_transaction_amount_vars
                    [''balance'', ''overdraft_limit'', ''id'']) (\<lambda>_.
          (case find (\<lambda>a. acc_id a = tx_account_id new) (accounts d) of
             None \<Rightarrow> Inr new
           | Some a \<Rightarrow>
               if balance a - tx_amount new < - overdraft_limit a then Inl InsufficientFunds
               else Inr new))
      else Inr new)"

text \<open>\<^verbatim>\<open>update_last_transaction\<close>, AFTER INSERT ON transactions: a completed row stamps
  its account (through \<^verbatim>\<open>UPDATE accounts\<close>, so with that statement's triggers).\<close>

definition update_last_transaction :: "db \<Rightarrow> timestamp \<Rightarrow> transaction \<Rightarrow> error + db" where
  "update_last_transaction d now new =
     (if tx_status new = TxCompleted then
        update_accounts d now (tx_account_id new) (\<lambda>a. a\<lparr>last_transaction_at := completed_at new\<rparr>)
      else Inr d)"

text \<open>The REFERENCES constraints of a transactions row.\<close>

definition references_ok :: "db \<Rightarrow> transaction \<Rightarrow> bool" where
  "references_ok d new =
     (list_ex (\<lambda>a. acc_id a = tx_account_id new) (accounts d) \<and>
      (case related_account_id new of
         None \<Rightarrow> True
       | Some r \<Rightarrow> list_ex (\<lambda>a. acc_id a = r) (accounts d)) \<and>
      (case related_transaction_id new of
         None \<Rightarrow> True
       | Some r \<Rightarrow> list_ex (\<lambda>t. tx_id t = r) (transactions d)))"

text \<open>\<^verbatim>\<open>INSERT INTO transactions ... RETURNING id\<close>: the id comes from the sequence and
  the amount is stored as \<^verbatim>\<open>DECIMAL(15,2)\<close>; the BEFORE trigger runs; then
  \<^verbatim>\<open>CONSTRAINT positive_amount CHECK (amount > 0)\<close>, the UNIQUE constraint of
  \<^verbatim>\<open>reference_number\<close> and the foreign keys; then the AFTER trigger.\<close>

definition insert_transaction :: "db \<Rightarrow> timestamp \<Rightarrow> transaction \<Rightarrow> error + (nat \<times> db)" where
  "insert_transaction d now row =
     and_then (numeric_15_2 (tx_amount row)) (\<lambda>_.
     and_then (validate_transaction_amount d (row\<lparr>tx_id := transactions_id_seq d\<rparr>)) (\<lambda>new.
       if tx_amount new \<le> 0 then Inl CheckViolation
       else if reference_number new \<in> set (map reference_number (transactions d))
         then Inl UniqueViolation
       else if \<not> references_ok d new then Inl ForeignKeyViolation
       else
         and_then (update_last_transaction
                     (d\<lparr>transactions := transactions d @ [new],
                        transactions_id_seq := Suc (transactions_id_seq d)\<rparr>) now new) (\<lambda>d'.
         Inr (tx_id new, d'))))"

text \<open>\<^verbatim>\<open>INSERT INTO alerts (...) SELECT user_id, ... FROM accounts WHERE id = aid\<close>: one
  alert per account row with that id.\<close>

definition insert_alert :: "db \<Rightarrow> nat \<Rightarrow> string \<Rightarrow> severity \<Rightarrow> string \<Rightarrow> db" where
  "insert_alert d aid ty sev title =
     d\<lparr>alerts := alerts d @
          map (\<lambda>a. \<lparr>al_user_id = acc_user_id a, al_account_id = aid, al_type = ty,
                     al_severity = sev, al_title = title\<rparr>)
            (filter (\<lambda>a. acc_id a = aid) (accounts d))\<rparr>"

text \<open>\<^verbatim>\<open>SELECT ... INTO ... FROM accounts WHERE account_number = n AND status =
  'active'\<close>: the first such row, or no row (the variables stay NULL).\<close>

definition find_active_account :: "db \<Rightarrow> string \<Rightarrow> account option" where
  "find_active_account d n = find (\<lambda>a. account_number a = n \<and> status a = Active) (accounts d)"

subsection \<open>Transaction functions\<close>

text \<open>The row both \<^verbatim>\<open>process_deposit\<close> and \<^verbatim>\<open>process_withdrawal\<close> return.\<close>

record tx_result =
  res_transaction_id :: nat
  res_new_balance :: money
  res_reference_number :: uuid
  res_status :: tx_status

text \<open>The variables of \<^verbatim>\<open>process_deposit\<close>: its five parameters, the four columns of
  its \<^verbatim>\<open>RETURNS TABLE\<close>, and its five declared variables.\<close>

definition process_deposit_vars :: "string list" where
  "process_deposit_vars =
     [''p_account_number'', ''p_amount'', ''p_description'', ''p_ip_address'', ''p_user_agent'',
      ''transaction_id'', ''new_balance'', ''reference_number'', ''status'',
      ''v_account_id'', ''v_current_balance'', ''v_new_balance'', ''v_transaction_id'',
      ''v_reference'']"

text \<open>\<^verbatim>\<open>process_deposit(p_account_number, p_amount, p_description)\<close>. Its first
  statement is \<^verbatim>\<open>SELECT id, balance INTO ... FROM accounts WHERE account_number =
  p_account_number AND status = 'active'\<close>. The inserted row takes its
  \<^verbatim>\<open>reference_number\<close> from the column default \<^verbatim>\<open>uuid_generate_v4()\<close>, here \<open>ref\<close>.
  The large-deposit threshold \<^verbatim>\<open>10000\<close> is \<open>1000000\<close> cents.\<close>

definition process_deposit ::
  "db \<Rightarrow> timestamp \<Rightarrow> uuid \<Rightarrow> string \<Rightarrow> money \<Rightarrow> string \<Rightarrow> error + (tx_result \<times> db)" where
  "process_deposit d now ref p_account_number p_amount p_description =
     and_then (resolve process_deposit_vars
                 [''id'', ''balance'', ''account_number'', ''status'']) (\<lambda>_.
     (case find_active_account d p_account_number of
        None \<Rightarrow> Inl AccountNotFound
      | Some acct \<Rightarrow>
          if p_amount \<le> 0 then Inl InvalidAmount
          else
            and_then (numeric_15_2 (balance acct + p_amount)) (\<lambda>v_new_balance.
            and_then (resolve process_deposit_vars [''id'', ''reference_number'']) (\<lambda>_.
            and_then (insert_transaction d now
                 \<lparr>tx_id = 0, tx_account_id = acc_id acct, tx_type = TxDeposit,
                  tx_amount = p_amount, balance_before = Some (balance acct),
                  balance_after = Some v_new_balance, description = p_description,
                  reference_number = ref, tx_status = TxCompleted,
                  related_transaction_id = None, related_account_id = None,
                  created_at = now, completed_at = Some now\<rparr>) (\<lambda>(v_transaction_id, d1).
            and_then (resolve process_deposit_vars [''id'']) (\<lambda>_.
            and_then (update_accounts d1 now (acc_id acct)
                 (\<lambda>a. a\<lparr>balance := v_new_balance, last_transaction_at := Some now\<rparr>)) (\<lambda>d2.
            and_then
              (if p_amount > 1000000 then
                 and_then (resolve process_deposit_vars [''user_id'', ''id'']) (\<lambda>_.
                 Inr (insert_alert d2 (acc_id acct) ''large_transaction'' Info ''Large Deposit''))
               else Inr d2) (\<lambda>d3.
            Inr (\<lparr>res_transaction_id = v_transaction_id,
                  res_new_balance = v_new_balance,
                  res_reference_number = ref,
                  res_status = TxCompleted\<rparr>, d3)))))))))"

text \<open>The daily-limit row \<^verbatim>\<open>process_withdrawal\<close> reads: \<^verbatim>\<open>WHERE account_id = ... AND
  limit_type = 'daily_withdrawal' AND (reset_at IS NULL OR reset_at > NOW())\<close>.\<close>

definition limit_in_force :: "timestamp \<Rightarrow> account_limit \<Rightarrow> bool" where
  "limit_in_force now l = (case reset_at l of None \<Rightarrow> True | Some t \<Rightarrow> now < t)"

definition find_daily_limit :: "db \<Rightarrow> timestamp \<Rightarrow> nat \<Rightarrow> account_limit option" where
  "find_daily_limit d now aid =
     find (\<lambda>l. lim_account_id l = aid \<and> limit_type l = Daily_withdrawal \<and> limit_in_force now l)
       (account_limits d)"

text \<open>\<^verbatim>\<open>UPDATE account_limits SET current_usage = current_usage + p_amount WHERE
  account_id = ... AND limit_type = 'daily_withdrawal'\<close>; the new usage is stored as
  \<^verbatim>\<open>DECIMAL(15,2)\<close>. No trigger function for this table is defined in the repository
  (the schema's trigger statement for it names a function that does not exist), so the
  statement runs no trigger.\<close>

definition add_daily_usage :: "db \<Rightarrow> nat \<Rightarrow> money \<Rightarrow> error + db" where
  "add_daily_usage d aid p_amount =
     (if list_ex (\<lambda>l. lim_account_id l = aid \<and> limit_type l = Daily_withdrawal \<and>
                       isl (numeric_15_2 (current_usage l + p_amount))) (account_limits d)
      then Inl NumericOverflow
      else Inr (d\<lparr>account_limits :=
                    map (\<lambda>l. if lim_account_id l = aid \<and> limit_type l = Daily_withdrawal
                              then l\<lparr>current_usage := current_usage l + p_amount\<rparr> else l)
                      (account_limits d)\<rparr>))"

text \<open>The variables of \<^verbatim>\<open>process_withdrawal\<close>: its five parameters, the four columns
  of its \<^verbatim>\<open>RETURNS TABLE\<close>, and its eight declared variables.\<close>

definition process_withdrawal_vars :: "string list" where
  "process_withdrawal_vars =
     [''p_account_number'', ''p_amount'', ''p_description'', ''p_ip_address'', ''p_user_agent'',
      ''transaction_id'', ''new_balance'', ''reference_number'', ''status'',
      ''v_account_id'', ''v_current_balance'', ''v_overdraft_limit'', ''v_new_balance'',
      ''v_transaction_id'', ''v_reference'', ''v_daily_limit'', ''v_daily_usage'']"

text \<open>\<^verbatim>\<open>process_withdrawal(p_account_number, p_amount, p_description)\<close>. Its first
  statement is \<^verbatim>\<open>SELECT id, balance, overdraft_limit INTO ... FROM accounts WHERE
  account_number = p_account_number AND status = 'active'\<close>. The low-balance threshold
  \<^verbatim>\<open>100\<close> is \<open>10000\<close> cents.\<close>

definition process_withdrawal ::
  "db \<Rightarrow> timestamp \<Rightarrow> uuid \<Rightarrow> string \<Rightarrow> money \<Rightarrow> string \<Rightarrow> error + (tx_result \<times> db)" where
  "process_withdrawal d now ref p_account_number p_amount p_description =
     and_then (resolve process_withdrawal_vars
                 [''id'', ''balance'', ''overdraft_limit'', ''account_number'', ''status'']) (\<lambda>_.
     (case find_active_account d p_account_number of
        None \<Rightarrow> Inl AccountNotFound
      | Some acct \<Rightarrow>
          if p_amount \<le> 0 then Inl InvalidAmount
          else if balance acct - p_amount < - overdraft_limit acct then Inl InsufficientFunds
          else
            and_then (resolve process_withdrawal_vars
                        [''amount'', ''current_usage'', ''account_id'', ''limit_type'',
                         ''reset_at'']) (\<lambda>_.
            if (case find_daily_limit d now (acc_id acct) of
                  None \<Rightarrow> False
                | Some l \<Rightarrow> current_usage l + p_amount > lim_amount l)
              then Inl LimitExceeded
            else
              and_then (numeric_15_2 (balance acct - p_amount)) (\<lambda>v_new_balance.
              and_then (resolve process_withdrawal_vars [''id'', ''reference_number'']) (\<lambda>_.
              and_then (insert_transaction d now
                   \<lparr>tx_id = 0, tx_account_id = acc_id acct, tx_type = TxWithdrawal,
                    tx_amount = p_amount, balance_before = Some (balance acct),
                    balance_after = Some v_new_balance, description = p_description,
                    reference_number = ref, tx_status = TxCompleted,
                    related_transaction_id = None, related_account_id = None,
                    created_at = now, completed_at = Some now\<rparr>) (\<lambda>(v_transaction_id, d1).
              and_then (resolve process_withdrawal_vars [''id'']) (\<lambda>_.
              and_then (update_accounts d1 now (acc_id acct)
                   (\<lambda>a. a\<lparr>balance := v_new_balance, last_transaction_at := Some now\<rparr>)) (\<lambda>d2.
              and_then (resolve process_withdrawal_vars
                          [''current_usage'', ''account_id'', ''limit_type'']) (\<lambda>_.
              and_then (add_daily_usage d2 (acc_id acct) p_amount) (\<lambda>d3.
              and_then
                (if v_new_balance < 10000 then
                   and_then (resolve process_withdrawal_vars [''user_id'', ''id'']) (\<lambda>_.
                   Inr (insert_alert d3 (acc_id acct) ''low_balance'' Warning
                          ''Low Balance Alert''))
                 else Inr d3) (\<lambda>d4.
              Inr (\<lparr>res_transaction_id = v_transaction_id,
                    res_new_balance = v_new_balance,
                    res_reference_number = ref,
                    res_status = TxCompleted\<rparr>, d4))))))))))))"

record transfer_result =
  from_transaction_id :: nat
  to_transaction_id :: nat
  from_balance :: money
  to_balance :: money
  tr_reference_number :: uuid
  tr_status :: tx_status

text \<open>The two rows \<^verbatim>\<open>process_transfer\<close> inserts, as its two VALUES lists build them. The
  withdrawal leg names no \<^verbatim>\<open>related_transaction_id\<close> (the column is absent from its
  column list); the deposit leg names the withdrawal leg's id.\<close>

definition withdrawal_leg ::
  "timestamp \<Rightarrow> uuid \<Rightarrow> account \<Rightarrow> account \<Rightarrow> string \<Rightarrow> money \<Rightarrow> string \<Rightarrow> transaction" where
  "withdrawal_leg now v_reference from_acct to_acct p_to_account p_amount p_description =
     \<lparr>tx_id = 0, tx_account_id = acc_id from_acct, tx_type = TxWithdrawal,
      tx_amount = p_amount, balance_before = Some (balance from_acct),
      balance_after = Some (balance from_acct - p_amount),
      description = ''Transfer to '' @ p_to_account @ '': '' @ p_description,
      reference_number = v_reference, tx_status = TxCompleted,
      related_transaction_id = None, related_account_id = Some (acc_id to_acct),
      created_at = now, completed_at = Some now\<rparr>"

definition deposit_leg ::
  "timestamp \<Rightarrow> uuid \<Rightarrow> account \<Rightarrow> account \<Rightarrow> nat \<Rightarrow> string \<Rightarrow> money \<Rightarrow> string \<Rightarrow> transaction" where
  "deposit_leg now v_reference from_acct to_acct v_from_tx_id p_from_account p_amount p_description =
     \<lparr>tx_id = 0, tx_account_id = acc_id to_acct, tx_type = TxDeposit,
      tx_amount = p_amount, balance_before = Some (balance to_acct),
      balance_after = Some (balance to_acct + p_amount),
      description = ''Transfer from '' @ p_from_account @ '': '' @ p_description,
      reference_number = v_reference, tx_status = TxCompleted,
      related_transaction_id = Some v_from_tx_id, related_account_id = Some (acc_id from_acct),
      created_at = now, completed_at = Some now\<rparr>"

text \<open>The variables of \<^verbatim>\<open>process_transfer\<close>: its six parameters, the six columns of
  its \<^verbatim>\<open>RETURNS TABLE\<close>, and its nine declared variables.\<close>

definition process_transfer_vars :: "string list" where
  "process_transfer_vars =
     [''p_from_account'', ''p_to_account'', ''p_amount'', ''p_description'', ''p_ip_address'',
      ''p_user_agent'',
      ''from_transaction_id'', ''to_transaction_id'', ''from_balance'', ''to_balance'',
      ''reference_number'', ''status'',
      ''v_from_account_id'', ''v_to_account_id'', ''v_from_balance'', ''v_to_balance'',
      ''v_from_new_balance'', ''v_to_new_balance'', ''v_from_tx_id'', ''v_to_tx_id'',
      ''v_reference'']"

text \<open>\<^verbatim>\<open>process_transfer(p_from_account, p_to_account, p_amount, p_description)\<close>. The
  two argument checks come first. Then both account rows are read, each by \<^verbatim>\<open>SELECT
  id, balance INTO ... FROM accounts WHERE account_number = ... AND status = 'active'
  FOR UPDATE\<close>, the source account's first, before either check of them; the funds check
  is \<^verbatim>\<open>v_from_balance < p_amount\<close>; \<open>ref\<close> is the one \<^verbatim>\<open>uuid_generate_v4()\<close> the
  function draws and writes into both rows.\<close>

definition process_transfer ::
  "db \<Rightarrow> timestamp \<Rightarrow> uuid \<Rightarrow> string \<Rightarrow> string \<Rightarrow> money \<Rightarrow> string \<Rightarrow> error + (transfer_result \<times> db)" where
  "process_transfer d now ref p_from_account p_to_account p_amount p_description =
     (if p_from_account = p_to_account then Inl SelfTransfer
      else if p_amount \<le> 0 then Inl InvalidAmount
      else
        and_then (resolve process_transfer_vars
                    [''id'', ''balance'', ''account_number'', ''status'']) (\<lambda>_.
        let from_row = find_active_account d p_from_account in
        and_then (resolve process_transfer_vars
                    [''id'', ''balance'', ''account_number'', ''status'']) (\<lambda>_.
        let to_row = find_active_account d p_to_account in
        (case from_row of
           None \<Rightarrow> Inl AccountNotFound
         | Some from_acct \<Rightarrow>
             (case to_row of
                None \<Rightarrow> Inl AccountNotFound
              | Some to_acct \<Rightarrow>
                  if balance from_acct < p_amount then Inl InsufficientFunds
                  else
                    and_then (numeric_15_2 (balance from_acct - p_amount)) (\<lambda>v_from_new_balance.
                    and_then (numeric_15_2 (balance to_acct + p_amount)) (\<lambda>v_to_new_balance.
                    and_then (resolve process_transfer_vars [''id'']) (\<lambda>_.
                    and_then (insert_transaction d now
                                (withdrawal_leg now ref from_acct to_acct p_to_account p_amount
                                   p_description)) (\<lambda>(v_from_tx_id, d1).
                    and_then (resolve process_transfer_vars [''id'']) (\<lambda>_.
                    and_then (insert_transaction d1 now
                                (deposit_leg now ref from_acct to_acct v_from_tx_id
                                   p_from_account p_amount p_description)) (\<lambda>(v_to_tx_id, d2).
                    and_then (resolve process_transfer_vars [''id'']) (\<lambda>_.
                    and_then (update_accounts d2 now (acc_id from_acct)
                                (\<lambda>a. a\<lparr>balance := v_from_new_balance,
                                        last_transaction_at := Some now\<rparr>)) (\<lambda>d3.
                    and_then (resolve process_transfer_vars [''id'']) (\<lambda>_.
                    and_then (update_accounts d3 now (acc_id to_acct)
                                (\<lambda>a. a\<lparr>balance := v_to_new_balance,
                                        last_transaction_at := Some now\<rparr>)) (\<lambda>d4.
                    and_then (resolve process_transfer_vars [''user_id'', ''id'']) (\<lambda>_.
                    Inr (\<lparr>from_transaction_id = v_from_tx_id,
                          to_transaction_id = v_to_tx_id,
                          from_balance = v_from_new_balance,
                          to_balance = v_to_new_balance,
                          tr_reference_number = ref,
                          tr_status = TxCompleted\<rparr>,
                         insert_alert d4 (acc_id to_acct) ''transfer_received'' Info
                           ''Transfer Received'')))))))))))))))))"

subsection \<open>Account management and utility functions\<close>

text \<open>\<^verbatim>\<open>close_account(p_account_number, p_reason)\<close>.\<close>

definition close_account :: "db \<Rightarrow> timestamp \<Rightarrow> string \<Rightarrow> string \<Rightarrow> error + (bool \<times> db)" where
  "close_account d now p_account_number p_reason =
     (case find_active_account d p_account_number of
        None \<Rightarrow> Inl AccountNotFound
      | Some acct \<Rightarrow>
          if balance acct \<noteq> 0 then Inl NonZeroBalance
          else
            (case update_accounts d now (acc_id acct)
                    (\<lambda>a. a\<lparr>status := Closed, closed_at := Some now\<rparr>) of
               Inl e \<Rightarrow> Inl e
             | Inr d1 \<Rightarrow>
                 Inr (True,
                      d1\<lparr>audit_logs := audit_logs d1 @
                           [\<lparr>au_user_id = Some (acc_user_id acct), au_account_id = Some (acc_id acct),
                             au_action = ''account_closed'', au_entity_type = ''account'',
                             au_entity_id = acc_id acct,
                             old_values = [(''status'', JStr ''active'')],
                             new_values = [(''status'', JStr ''closed''), (''closed_at'', JTime now)],
                             au_metadata = Some [(''reason'', JStr p_reason)],
                             au_created_at = now\<rparr>]\<rparr>)))"

text \<open>\<^verbatim>\<open>UPDATE t SET ... WHERE cond\<close> followed by \<^verbatim>\<open>GET DIAGNOSTICS n = ROW_COUNT\<close>:
  the rewritten table and the number of rows the statement updated.\<close>

definition update_where :: "('r \<Rightarrow> bool) \<Rightarrow> ('r \<Rightarrow> 'r) \<Rightarrow> 'r list \<Rightarrow> 'r list \<times> nat" where
  "update_where cond f rows = (map (\<lambda>r. if cond r then f r else r) rows, length (filter cond rows))"

text \<open>\<^verbatim>\<open>INTERVAL '1 day'\<close>, in seconds (a day without a clock change).\<close>

definition one_day :: timestamp where
  "one_day = 86400"

text \<open>The WHERE clause of \<^verbatim>\<open>reset_daily_limits\<close>: \<^verbatim>\<open>period = 'daily' AND (reset_at IS
  NULL OR reset_at <= NOW())\<close>.\<close>

definition reset_due :: "timestamp \<Rightarrow> account_limit \<Rightarrow> bool" where
  "reset_due now l =
     (period l = Daily \<and> (case reset_at l of None \<Rightarrow> True | Some t \<Rightarrow> t \<le> now))"

definition reset_daily_limits :: "db \<Rightarrow> timestamp \<Rightarrow> nat \<times> db" where
  "reset_daily_limits d now =
     (case update_where (reset_due now)
             (\<lambda>l. l\<lparr>current_usage := 0, reset_at := Some (now + one_day)\<rparr>) (account_limits d) of
        (rows, v_count) \<Rightarrow> (v_count, d\<lparr>account_limits := rows\<rparr>))"

text \<open>The variables of \<^verbatim>\<open>close_account\<close> (it returns a BOOLEAN, so it has no output
  column) and of \<^verbatim>\<open>reset_daily_limits\<close>, and the column references of their
  statements: the SELECT and the UPDATE of \<^verbatim>\<open>close_account\<close> (its INSERT has a VALUES
  list of variables only) and the UPDATE of \<^verbatim>\<open>reset_daily_limits\<close>. No name is on both
  sides (lemma \<open>account_management_names_resolve\<close>), so no statement of the two functions
  raises in resolution, and the definitions above start with the statements
  themselves.\<close>

definition close_account_vars :: "string list" where
  "close_account_vars =
     [''p_account_number'', ''p_reason'', ''v_account_id'', ''v_balance'', ''v_user_id'']"

definition reset_daily_limits_vars :: "string list" where
  "reset_daily_limits_vars = [''v_count'']"

subsection \<open>Calling a function\<close>

text \<open>A call is one SQL statement: when the function raises, PostgreSQL rolls back
  everything the statement wrote, and the caller is left with the database it had.\<close>

definition call :: "(db \<Rightarrow> error + ('r \<times> db)) \<Rightarrow> db \<Rightarrow> (error + 'r) \<times> db" where
  "call f d = (case f d of Inl e \<Rightarrow> (Inl e, d) | Inr (r, d') \<Rightarrow> (Inr r, d'))"

subsection \<open>What the schema guarantees of every stored state\<close>

text \<open>\<^verbatim>\<open>accounts.id\<close> is the primary key, \<^verbatim>\<open>account_number\<close> is UNIQUE, and every
  stored row satisfies \<^verbatim>\<open>CHECK (balance >= -overdraft_limit)\<close>.\<close>

definition schema_ok :: "db \<Rightarrow> bool" where
  "schema_ok d =
     (distinct (map acc_id (accounts d)) \<and>
      distinct (map account_number (accounts d)) \<and>
      list_all (\<lambda>a. - overdraft_limit a \<le> balance a) (accounts d))"


subsection \<open>Sequences of calls\<close>

text \<open>A call of one of the three transaction functions, with the clock value and the
  generated reference token of the call; running a sequence of calls on a fixed set of
  accounts stops at the first call that fails.\<close>

datatype ledger_call =
    Deposit string money string
  | Withdraw string money string
  | Transfer string string money string

fun exec_call :: "db \<Rightarrow> timestamp \<times> uuid \<times> ledger_call \<Rightarrow> error + db" where
  "exec_call d (now, ref, Deposit n amt descr) =
     (case process_deposit d now ref n amt descr of Inl e \<Rightarrow> Inl e | Inr (r, d') \<Rightarrow> Inr d')"
| "exec_call d (now, ref, Withdraw n amt descr) =
     (case process_withdrawal d now ref n amt descr of Inl e \<Rightarrow> Inl e | Inr (r, d') \<Rightarrow> Inr d')"
| "exec_call d (now, ref, Transfer f t amt descr) =
     (case process_transfer d now ref f t amt descr of Inl e \<Rightarrow> Inl e | Inr (r, d') \<Rightarrow> Inr d')"

fun run_calls :: "db \<Rightarrow> (timestamp \<times> uuid \<times> ledger_call) list \<Rightarrow> error + db" where
  "run_calls d [] = Inr d"
| "run_calls d (c # cs) = (case exec_call d c of Inl e \<Rightarrow> Inl e | Inr d' \<Rightarrow> run_calls d' cs)"

subsection \<open>Example data\<close>

definition example_account :: "nat \<Rightarrow> string \<Rightarrow> money \<Rightarrow> money \<Rightarrow> account" where
  "example_account i n b od =
     \<lparr>acc_id = i, acc_user_id = i, account_number = n, balance = b, status = Active,
      overdraft_limit = od, updated_at = 0, closed_at = None, last_transaction_at = None\<rparr>"

definition example_limit ::
  "nat \<Rightarrow> limit_type \<Rightarrow> period \<Rightarrow> money \<Rightarrow> money \<Rightarrow> timestamp option \<Rightarrow> account_limit" where
  "example_limit i ty p cap used r =
     \<lparr>lim_account_id = i, limit_type = ty, lim_amount = cap, period = p, current_usage = used,
      reset_at = r\<rparr>"

definition example_db :: "account list \<Rightarrow> account_limit list \<Rightarrow> db" where
  "example_db accts lims =
     \<lparr>accounts = accts, transactions = [], account_limits = lims, alerts = [], audit_logs = [],
      transactions_id_seq = 1\<rparr>"

text \<open>Account 1 holds 100.00 with an overdraft limit of 500.00; account 2 holds 500.00.\<close>

definition overdraft_db :: db where
  "overdraft_db =
     example_db [example_account 1 ''KB0000000001'' 10000 50000,
                 example_account 2 ''KB0000000002'' 50000 0] []"

text \<open>One account with five limit entries: a daily entry past its reset time, a daily
  entry never reset, the per-transaction entry, a monthly entry past its reset time, and a
  daily entry whose reset time lies ahead.\<close>

definition sweep_db :: db where
  "sweep_db =
     example_db [example_account 1 ''KB0000000001'' 10000 0]
       [example_limit 1 Daily_withdrawal Daily 100000 90000 (Some 500),
        example_limit 1 Daily_transfer Daily 500000 20000 None,
        example_limit 1 Single_transaction Per_transaction 200000 0 None,
        example_limit 1 Monthly_withdrawal Monthly 1000000 30000 (Some 500),
        example_limit 1 Daily_withdrawal Daily 100000 40000 (Some 2000)]"

text \<open>Three active accounts: balance 0.01, balance -0.01 (within an overdraft limit of
  500.00), and balance 0.\<close>

definition closing_db :: db where
  "closing_db =
     example_db [example_account 1 ''KB0000000001'' 1 0,
                 example_account 2 ''KB0000000002'' (- 1) 50000,
                 example_account 3 ''KB0000000003'' 0 0] []"

text \<open>Account 1 is active with 5000.00 and the three limit entries \<^verbatim>\<open>create_account\<close>
  seeds, 900.00 of the daily withdrawal cap of 1000.00 used; account 2 is frozen.\<close>

definition limits_db :: db where
  "limits_db =
     example_db [example_account 1 ''KB0000000001'' 500000 0,
                 (example_account 2 ''KB0000000002'' 500000 0)\<lparr>status := Frozen\<rparr>]
       [example_limit 1 Daily_withdrawal Daily 100000 90000 None,
        example_limit 1 Daily_transfer Daily 500000 0 None,
        example_limit 1 Single_transaction Per_transaction 200000 0 None]"

text \<open>One account with 5000.00 whose daily withdrawal entry (cap 1000.00, 900.00 used) has
  its reset time, 500, in the past of the calls below.\<close>

definition stale_limit_db :: db where
  "stale_limit_db =
     example_db [example_account 1 ''KB0000000001'' 500000 0]
       [example_limit 1 Daily_withdrawal Daily 100000 90000 (Some 500)]"

section \<open>Properties\<close>

subsection \<open>Name resolution in the functions\<close>

text \<open>The first statement of \<^verbatim>\<open>process_deposit\<close>, of \<^verbatim>\<open>process_withdrawal\<close> and the
  first SELECT of \<^verbatim>\<open>process_transfer\<close> test \<^verbatim>\<open>status = 'active'\<close>, and \<^verbatim>\<open>status\<close> is
  an output column of each of the three functions; the SELECT of the trigger reads
  \<^verbatim>\<open>overdraft_limit\<close>, which the trigger function declares as a variable.\<close>

lemma process_deposit_first_statement:
  "resolve process_deposit_vars [''id'', ''balance'', ''account_number'', ''status'']
     = Inl AmbiguousColumn"
  by (simp add: resolve_def ambiguous_def process_deposit_vars_def)

lemma process_withdrawal_first_statement:
  "resolve process_withdrawal_vars
     [''id'', ''balance'', ''overdraft_limit'', ''account_number'', ''status'']
     = Inl AmbiguousColumn"
  by (simp add: resolve_def ambiguous_def process_withdrawal_vars_def)

lemma process_transfer_first_select:
  "resolve process_transfer_vars [''id'', ''balance'', ''account_number'', ''status'']
     = Inl AmbiguousColumn"
  by (simp add: resolve_def ambiguous_def process_transfer_vars_def)

lemma validate_transaction_amount_select:
  "resolve validate_transaction_amount_vars [''balance'', ''overdraft_limit'', ''id'']
     = Inl AmbiguousColumn"
  by (simp add: resolve_def ambiguous_def validate_transaction_amount_vars_def)

lemma account_management_names_resolve:
  "resolve close_account_vars [''id'', ''balance'', ''user_id'', ''account_number'', ''status'']
     = Inr () \<and>
   resolve close_account_vars [''id''] = Inr () \<and>
   resolve reset_daily_limits_vars [''period'', ''reset_at''] = Inr ()"
  by (simp add: resolve_def ambiguous_def close_account_vars_def reset_daily_limits_vars_def)

text \<open>So no call of \<^verbatim>\<open>process_deposit\<close> or \<^verbatim>\<open>process_withdrawal\<close> gets past its first
  statement, whatever its arguments and whatever the database holds;
  \<^verbatim>\<open>process_transfer\<close> gets past its two argument checks only; and the trigger refuses
  every withdrawal or transfer row.\<close>

lemma process_deposit_raises:
  "process_deposit d now ref n amt descr = Inl AmbiguousColumn"
  by (simp add: process_deposit_def process_deposit_first_statement and_then_def)

lemma process_withdrawal_raises:
  "process_withdrawal d now ref n amt descr = Inl AmbiguousColumn"
  by (simp add: process_withdrawal_def process_withdrawal_first_statement and_then_def)

lemma process_transfer_raises:
  "process_transfer d now ref f t amt descr =
     (if f = t then Inl SelfTransfer
      else if amt \<le> 0 then Inl InvalidAmount
      else Inl AmbiguousColumn)"
  by (simp add: process_transfer_def process_transfer_first_select and_then_def)

lemma validate_transaction_amount_raises:
  "tx_type new = TxWithdrawal \<or> tx_type new = TxTransfer \<Longrightarrow>
     validate_transaction_amount d new = Inl AmbiguousColumn"
  by (simp add: validate_transaction_amount_def validate_transaction_amount_select and_then_def)

lemma exec_call_raises: "isl (exec_call d c)"
proof -
  obtain now ref k where c: "c = (now, ref, k)" by (cases c)
  show ?thesis
    unfolding c
    by (cases k) (simp_all add: process_deposit_raises process_withdrawal_raises
                     process_transfer_raises)
qed

lemma run_calls_Inr_iff: "run_calls d cs = Inr d' \<longleftrightarrow> cs = [] \<and> d' = d"
proof (cases cs)
  case Nil
  then show ?thesis by auto
next
  case (Cons c cs')
  from exec_call_raises[of d c] obtain e where "exec_call d c = Inl e"
    by (cases "exec_call d c") simp_all
  with Cons show ?thesis by simp
qed

text \<open>The accounts of the examples, as the SELECT of a function would find them.\<close>

lemma overdraft_db_accounts:
  "find_active_account overdraft_db ''KB0000000001''
     = Some (example_account 1 ''KB0000000001'' 10000 50000)"
  "find_active_account overdraft_db ''KB0000000002''
     = Some (example_account 2 ''KB0000000002'' 50000 0)"
  by (simp_all add: find_active_account_def overdraft_db_def example_db_def example_account_def)

lemma limits_db_accounts:
  "find_active_account limits_db ''KB0000000001''
     = Some (example_account 1 ''KB0000000001'' 500000 0)"
  "find_active_account limits_db ''KB0000000009'' = None"
  by (simp_all add: find_active_account_def limits_db_def example_db_def example_account_def)

subsection \<open>Deposits\<close>

text \<open>
  Claim C6 (effect of a deposit). The claim: a deposit of a positive amount on an active
  account raises the balance by the amount, stores one completed deposit transaction,
  stamps the account and leaves an audit entry. The code, at a deposit of 250.00 on the
  active account KB0000000001 (balance 100.00): the call raises the ambiguous-column
  error at its first statement, and the database is what it was. By
  \<open>process_deposit_raises\<close> this is so at every input.
\<close>

theorem deposit_raises_on_active_account:
  "find_active_account overdraft_db ''KB0000000001''
     = Some (example_account 1 ''KB0000000001'' 10000 50000) \<and>
   process_deposit overdraft_db 1000 7 ''KB0000000001'' 25000 ''pay'' = Inl AmbiguousColumn \<and>
   call (\<lambda>s. process_deposit s 1000 7 ''KB0000000001'' 25000 ''pay'') overdraft_db
     = (Inl AmbiguousColumn, overdraft_db)"
  by (simp add: overdraft_db_accounts call_def process_deposit_def
        process_deposit_first_statement and_then_def)

subsection \<open>Alerts\<close>


subsection \<open>Withdrawals\<close>

text \<open>
  Claim C4 (failure kinds of a withdrawal). The claim: a withdrawal fails with exactly
  one of AccountNotFound, InvalidAmount, InsufficientFunds and LimitExceeded, and a
  failure changes nothing. The code, at a withdrawal of 50.00 from the active account
  KB0000000001 (balance 5000.00, 900.00 of the daily cap of 1000.00 used), which meets
  every precondition: the call fails with the ambiguous-column error, which is none of
  the four kinds. A withdrawal from an account that does not exist, and a withdrawal of
  0, fail with that error too, not with AccountNotFound or InvalidAmount. The database
  is left as it was.
\<close>

theorem withdrawal_raises_outside_the_four_kinds:
  "find_active_account limits_db ''KB0000000001''
     = Some (example_account 1 ''KB0000000001'' 500000 0) \<and>
   process_withdrawal limits_db 1000 7 ''KB0000000001'' 5000 ''atm'' = Inl AmbiguousColumn \<and>
   find_active_account limits_db ''KB0000000009'' = None \<and>
   process_withdrawal limits_db 1000 7 ''KB0000000009'' 5000 ''atm'' = Inl AmbiguousColumn \<and>
   process_withdrawal limits_db 1000 7 ''KB0000000001'' 0 ''atm'' = Inl AmbiguousColumn \<and>
   AmbiguousColumn \<notin> set [AccountNotFound, InvalidAmount, InsufficientFunds, LimitExceeded] \<and>
   call (\<lambda>s. process_withdrawal s 1000 7 ''KB0000000001'' 5000 ''atm'') limits_db
     = (Inl AmbiguousColumn, limits_db)"
  by (simp add: limits_db_accounts call_def process_withdrawal_def
        process_withdrawal_first_statement and_then_def)

subsection \<open>The daily withdrawal limit\<close>

text \<open>The two statements of \<^verbatim>\<open>process_withdrawal\<close> on the limit entry, each on its own:
  the check reads only an entry whose reset time is NULL or ahead, the increment writes
  every daily-withdrawal entry of the account. On an entry whose reset time has passed
  the check finds no row, and the increment takes 900.00 used of a cap of 1000.00 to
  1400.00. No call of the function reaches either statement.\<close>

lemma limit_statements_on_stale_entry:
  "find_daily_limit stale_limit_db 1000 1 = None \<and>
   map lim_amount (account_limits stale_limit_db) = [100000] \<and>
   (case add_daily_usage stale_limit_db 1 50000 of
      Inl e \<Rightarrow> []
    | Inr d' \<Rightarrow> map current_usage (account_limits d')) = [140000]"
  by (simp add: find_daily_limit_def limit_in_force_def add_daily_usage_def numeric_15_2_def
        stale_limit_db_def example_db_def example_limit_def)


subsection \<open>Transfers\<close>

text \<open>
  Claim C2 (funds check of a transfer). The claim: a transfer between two distinct
  active accounts is refused for insufficient funds exactly when the debit would go
  beyond the overdraft limit, and otherwise succeeds. The code, at a transfer of 200.00
  from KB0000000001 (balance 100.00, overdraft limit 500.00) to KB0000000002, where the
  debit stays within the overdraft limit: the call raises the ambiguous-column error at
  its first SELECT and moves nothing. The funds test of the text, \<^verbatim>\<open>v_from_balance <
  p_amount\<close>, which the call does not reach, is true at this input.
\<close>

theorem transfer_within_overdraft_raises:
  "find_active_account overdraft_db ''KB0000000001''
     = Some (example_account 1 ''KB0000000001'' 10000 50000) \<and>
   find_active_account overdraft_db ''KB0000000002''
     = Some (example_account 2 ''KB0000000002'' 50000 0) \<and>
   - overdraft_limit (example_account 1 ''KB0000000001'' 10000 50000)
     \<le> balance (example_account 1 ''KB0000000001'' 10000 50000) - 20000 \<and>
   process_transfer overdraft_db 1000 7 ''KB0000000001'' ''KB0000000002'' 20000 ''rent''
     = Inl AmbiguousColumn \<and>
   call (\<lambda>s. process_transfer s 1000 7 ''KB0000000001'' ''KB0000000002'' 20000 ''rent'')
     overdraft_db = (Inl AmbiguousColumn, overdraft_db) \<and>
   balance (example_account 1 ''KB0000000001'' 10000 50000) < 20000"
  by (simp add: overdraft_db_accounts call_def process_transfer_def
        process_transfer_first_select and_then_def example_account_def)


subsection \<open>Conservation\<close>


subsection \<open>The limit sweep\<close>

text \<open>
  Claim C8 (\<^verbatim>\<open>reset_daily_limits\<close>), as stated: every limit entry whose \<open>reset_at\<close> is
  not after \<open>now\<close> is zeroed, whatever its limit type or period, and counted. The
  statement's WHERE clause starts with \<^verbatim>\<open>period = 'daily'\<close>: a monthly entry whose reset
  time (500) lies before \<open>now\<close> (1000) keeps its usage and its reset time, and the
  function returns 0.
\<close>

theorem reset_skips_monthly_entry:
  "reset_daily_limits
     (example_db [example_account 1 ''KB0000000001'' 10000 0]
        [example_limit 1 Monthly_withdrawal Monthly 1000000 30000 (Some 500)]) 1000
   = (0, example_db [example_account 1 ''KB0000000001'' 10000 0]
           [example_limit 1 Monthly_withdrawal Monthly 1000000 30000 (Some 500)])"
  by (simp add: reset_daily_limits_def update_where_def reset_due_def example_db_def
        example_limit_def)

text \<open>
  Claim C8, amended: \<^verbatim>\<open>reset_daily_limits\<close>, run at \<open>now\<close>, sets \<open>current_usage\<close> to 0
  and \<open>reset_at\<close> to \<open>now\<close> plus one day in every entry whose period is daily and whose
  \<open>reset_at\<close> is NULL or not after \<open>now\<close>, whatever its limit type; it returns the number
  of those entries; every other entry, and every other table, is left as it was.
\<close>

theorem reset_daily_limits_effect:
  assumes "reset_daily_limits d now = (n, d')"
  shows "length (account_limits d') = length (account_limits d) \<and>
         n = length (filter (\<lambda>l. period l = Daily \<and>
                                  (reset_at l = None \<or> (\<exists>t. reset_at l = Some t \<and> t \<le> now)))
                       (account_limits d)) \<and>
         (\<forall>i < length (account_limits d).
            account_limits d' ! i =
              (if period (account_limits d ! i) = Daily \<and>
                  (reset_at (account_limits d ! i) = None \<or>
                   (\<exists>t. reset_at (account_limits d ! i) = Some t \<and> t \<le> now))
               then (account_limits d ! i)\<lparr>current_usage := 0, reset_at := Some (now + one_day)\<rparr>
               else account_limits d ! i)) \<and>
         accounts d' = accounts d \<and> transactions d' = transactions d \<and>
         alerts d' = alerts d \<and> audit_logs d' = audit_logs d"
proof -
  have due: "reset_due now =
       (\<lambda>l. period l = Daily \<and> (reset_at l = None \<or> (\<exists>t. reset_at l = Some t \<and> t \<le> now)))"
    by (rule ext) (simp add: reset_due_def split: option.splits)
  from assms have n: "n = length (filter (reset_due now) (account_limits d))"
    and d': "d' = d\<lparr>account_limits :=
                map (\<lambda>l. if reset_due now l
                          then l\<lparr>current_usage := 0, reset_at := Some (now + one_day)\<rparr> else l)
                  (account_limits d)\<rparr>"
    by (auto simp: reset_daily_limits_def update_where_def)
  show ?thesis
    unfolding n d' by (simp add: due)
qed

theorem reset_daily_limits_effect_witness:
  "fst (reset_daily_limits sweep_db 1000) = 2 \<and>
   account_limits (snd (reset_daily_limits sweep_db 1000)) ! 0
     = (example_limit 1 Daily_withdrawal Daily 100000 90000 (Some 500))
         \<lparr>current_usage := 0, reset_at := Some (1000 + one_day)\<rparr> \<and>
   account_limits (snd (reset_daily_limits sweep_db 1000)) ! 1
     = (example_limit 1 Daily_transfer Daily 500000 20000 None)
         \<lparr>current_usage := 0, reset_at := Some (1000 + one_day)\<rparr> \<and>
   account_limits (snd (reset_daily_limits sweep_db 1000)) ! 3
     = example_limit 1 Monthly_withdrawal Monthly 1000000 30000 (Some 500) \<and>
   account_limits (snd (reset_daily_limits sweep_db 1000)) ! 4
     = example_limit 1 Daily_withdrawal Daily 100000 40000 (Some 2000)"
proof -
  have h: "reset_daily_limits sweep_db 1000
             = (fst (reset_daily_limits sweep_db 1000), snd (reset_daily_limits sweep_db 1000))"
    by simp
  have ls: "account_limits sweep_db =
       [example_limit 1 Daily_withdrawal Daily 100000 90000 (Some 500),
        example_limit 1 Daily_transfer Daily 500000 20000 None,
        example_limit 1 Single_transaction Per_transaction 200000 0 None,
        example_limit 1 Monthly_withdrawal Monthly 1000000 30000 (Some 500),
        example_limit 1 Daily_withdrawal Daily 100000 40000 (Some 2000)]"
    by (simp add: sweep_db_def example_db_def)
  from reset_daily_limits_effect[OF h]
  have n: "fst (reset_daily_limits sweep_db 1000) =
             length (filter (\<lambda>l. period l = Daily \<and>
                                  (reset_at l = None \<or> (\<exists>t. reset_at l = Some t \<and> t \<le> 1000)))
                       (account_limits sweep_db))"
    and nth: "\<forall>i < length (account_limits sweep_db).
            account_limits (snd (reset_daily_limits sweep_db 1000)) ! i =
              (if period (account_limits sweep_db ! i) = Daily \<and>
                  (reset_at (account_limits sweep_db ! i) = None \<or>
                   (\<exists>t. reset_at (account_limits sweep_db ! i) = Some t \<and> t \<le> 1000))
               then (account_limits sweep_db ! i)
                      \<lparr>current_usage := 0, reset_at := Some (1000 + one_day)\<rparr>
               else account_limits sweep_db ! i)"
    by blast+
  have c: "fst (reset_daily_limits sweep_db 1000) = 2"
    unfolding n ls by (simp add: example_limit_def)
  have e0: "account_limits (snd (reset_daily_limits sweep_db 1000)) ! 0
     = (example_limit 1 Daily_withdrawal Daily 100000 90000 (Some 500))
         \<lparr>current_usage := 0, reset_at := Some (1000 + one_day)\<rparr>"
    using nth[rule_format, of 0] unfolding ls by (simp add: example_limit_def)
  have e1: "account_limits (snd (reset_daily_limits sweep_db 1000)) ! 1
     = (example_limit 1 Daily_transfer Daily 500000 20000 None)
         \<lparr>current_usage := 0, reset_at := Some (1000 + one_day)\<rparr>"
    using nth[rule_format, of 1] unfolding ls by (simp add: example_limit_def)
  have e3: "account_limits (snd (reset_daily_limits sweep_db 1000)) ! 3
     = example_limit 1 Monthly_withdrawal Monthly 1000000 30000 (Some 500)"
    using nth[rule_format, of 3] unfolding ls by (simp add: example_limit_def)
  have e4: "account_limits (snd (reset_daily_limits sweep_db 1000)) ! 4
     = example_limit 1 Daily_withdrawal Daily 100000 40000 (Some 2000)"
    using nth[rule_format, of 4] unfolding ls by (simp add: example_limit_def)
  from c e0 e1 e3 e4 show ?thesis by blast
qed

subsection \<open>Lookups and the update of an account row\<close>

lemma find_active_account_SomeD:
  "find_active_account d n = Some a \<Longrightarrow>
     a \<in> set (accounts d) \<and> account_number a = n \<and> status a = Active"
  unfolding find_active_account_def by (auto simp: find_Some_iff)

lemma filter_id_single:
  "distinct (map acc_id xs) \<Longrightarrow> a \<in> set xs \<Longrightarrow> filter (\<lambda>x. acc_id x = acc_id a) xs = [a]"
  by (induction xs) (auto simp: filter_empty_conv image_iff)

lemma update_accounts_single:
  assumes "distinct (map acc_id (accounts d))" and "a \<in> set (accounts d)"
  shows "update_accounts d now (acc_id a) f =
           (if balance (f a) < - overdraft_limit (f a) then Inl CheckViolation
            else Inr (d\<lparr>accounts :=
                          map (\<lambda>x. if acc_id x = acc_id a then (f x)\<lparr>updated_at := now\<rparr> else x)
                            (accounts d),
                        audit_logs :=
                          audit_logs d @ log_balance_change now a ((f a)\<lparr>updated_at := now\<rparr>)\<rparr>))"
  unfolding update_accounts_def Let_def filter_id_single[OF assms]
  by (simp add: update_updated_at_column_def)

subsection \<open>Closing an account\<close>

lemma find_active_account_unique:
  assumes "schema_ok d" and "a \<in> set (accounts d)" and "account_number a = n" and "status a = Active"
  shows "find_active_account d n = Some a"
proof -
  from assms(1) have inj: "inj_on account_number (set (accounts d))"
    by (simp add: schema_ok_def distinct_map)
  from assms(2-4) obtain b where b: "find_active_account d n = Some b"
    unfolding find_active_account_def
    by (cases "find (\<lambda>a. account_number a = n \<and> status a = Active) (accounts d)")
      (auto simp: find_None_iff)
  from find_active_account_SomeD[OF b] have "b \<in> set (accounts d)" "account_number b = n" by simp_all
  with inj assms(2,3) have "b = a" by (auto dest: inj_onD)
  with b show ?thesis by simp
qed

lemma find_active_account_iff:
  assumes "schema_ok d"
  shows "find_active_account d n = Some a \<longleftrightarrow> a \<in> set (accounts d) \<and> account_number a = n \<and> status a = Active"
  using find_active_account_unique[OF assms] find_active_account_SomeD by blast

lemma find_active_account_None_iff:
  "find_active_account d n = None \<longleftrightarrow> \<not> (\<exists>a \<in> set (accounts d). account_number a = n \<and> status a = Active)"
  unfolding find_active_account_def by (auto simp: find_None_iff)

lemma close_account_ok:
  assumes ok: "schema_ok d" and found: "find_active_account d n = Some a" and zero: "balance a = 0"
  shows "close_account d now n reason =
     Inr (True,
          d\<lparr>accounts := map (\<lambda>x. if acc_id x = acc_id a
                                 then x\<lparr>status := Closed, closed_at := Some now, updated_at := now\<rparr>
                                 else x) (accounts d),
            audit_logs := audit_logs d @
               [\<lparr>au_user_id = Some (acc_user_id a), au_account_id = Some (acc_id a),
                 au_action = ''account_closed'', au_entity_type = ''account'',
                 au_entity_id = acc_id a,
                 old_values = [(''status'', JStr ''active'')],
                 new_values = [(''status'', JStr ''closed''), (''closed_at'', JTime now)],
                 au_metadata = Some [(''reason'', JStr reason)],
                 au_created_at = now\<rparr>]\<rparr>)"
proof -
  from ok have dist: "distinct (map acc_id (accounts d))"
    and chk: "list_all (\<lambda>a. - overdraft_limit a \<le> balance a) (accounts d)"
    by (simp_all add: schema_ok_def)
  from find_active_account_SomeD[OF found] have a: "a \<in> set (accounts d)" by simp
  from chk a have ca: "- overdraft_limit a \<le> balance a" by (simp add: list_all_iff)
  have upd: "update_accounts d now (acc_id a) (\<lambda>a. a\<lparr>status := Closed, closed_at := Some now\<rparr>) =
      Inr (d\<lparr>accounts := map (\<lambda>x. if acc_id x = acc_id a
                                 then x\<lparr>status := Closed, closed_at := Some now, updated_at := now\<rparr>
                                 else x) (accounts d)\<rparr>)"
    using update_accounts_single[OF dist a, of now "\<lambda>a. a\<lparr>status := Closed, closed_at := Some now\<rparr>"] ca
    by (simp add: log_balance_change_def)
  show ?thesis
    unfolding close_account_def found
    by (simp add: zero upd)
qed

text \<open>
  Claim C7 (close-account guard). \<^verbatim>\<open>close_account\<close> returns true exactly when an
  active account has the number and its balance is 0; a call that returns has closed that
  account (status closed, the closing time set) and returned true; and for an active
  account with any other balance, 0.01 and -0.01 included, the call fails with
  NonZeroBalance and leaves the database as it was.
\<close>

theorem close_account_guard:
  assumes "schema_ok d"
  shows "((\<exists>d'. close_account d now n reason = Inr (True, d')) \<longleftrightarrow>
            (\<exists>a \<in> set (accounts d). account_number a = n \<and> status a = Active \<and> balance a = 0)) \<and>
         (\<forall>b d'. close_account d now n reason = Inr (b, d') \<longrightarrow>
            b = True \<and>
            (\<exists>a \<in> set (accounts d). account_number a = n \<and> status a = Active \<and>
               accounts d' =
                 map (\<lambda>x. if acc_id x = acc_id a
                           then x\<lparr>status := Closed, closed_at := Some now, updated_at := now\<rparr>
                           else x) (accounts d))) \<and>
         (\<forall>a \<in> set (accounts d). account_number a = n \<and> status a = Active \<and> balance a \<noteq> 0 \<longrightarrow>
            call (\<lambda>s. close_account s now n reason) d = (Inl NonZeroBalance, d))"
proof -
  have p1: "(\<exists>d'. close_account d now n reason = Inr (True, d')) \<longleftrightarrow>
            (\<exists>a \<in> set (accounts d). account_number a = n \<and> status a = Active \<and> balance a = 0)"
  proof
    assume "\<exists>d'. close_account d now n reason = Inr (True, d')"
    then obtain d' where s: "close_account d now n reason = Inr (True, d')" ..
    then obtain a where f: "find_active_account d n = Some a" and z: "balance a = 0"
      unfolding close_account_def by (auto split: option.splits if_splits)
    from find_active_account_SomeD[OF f] z
    show "\<exists>a \<in> set (accounts d). account_number a = n \<and> status a = Active \<and> balance a = 0"
      by blast
  next
    assume "\<exists>a \<in> set (accounts d). account_number a = n \<and> status a = Active \<and> balance a = 0"
    then obtain a where a: "a \<in> set (accounts d)" "account_number a = n" "status a = Active"
        "balance a = 0"
      by blast
    from find_active_account_unique[OF assms a(1-3)] have f: "find_active_account d n = Some a" .
    from close_account_ok[OF assms f a(4)]
    show "\<exists>d'. close_account d now n reason = Inr (True, d')"
      by blast
  qed
  have p2: "\<forall>b d'. close_account d now n reason = Inr (b, d') \<longrightarrow>
            b = True \<and>
            (\<exists>a \<in> set (accounts d). account_number a = n \<and> status a = Active \<and>
               accounts d' =
                 map (\<lambda>x. if acc_id x = acc_id a
                           then x\<lparr>status := Closed, closed_at := Some now, updated_at := now\<rparr>
                           else x) (accounts d))"
  proof (intro allI impI)
    fix b d' assume s: "close_account d now n reason = Inr (b, d')"
    then obtain a where f: "find_active_account d n = Some a" and z: "balance a = 0"
      unfolding close_account_def by (auto split: option.splits if_splits)
    from close_account_ok[OF assms f z, of now reason] s
    have b: "b = True" and acc: "accounts d' =
                   map (\<lambda>x. if acc_id x = acc_id a
                             then x\<lparr>status := Closed, closed_at := Some now, updated_at := now\<rparr>
                             else x) (accounts d)"
      by auto
    from find_active_account_SomeD[OF f] acc
    have "\<exists>a \<in> set (accounts d). account_number a = n \<and> status a = Active \<and>
                 accounts d' =
                   map (\<lambda>x. if acc_id x = acc_id a
                             then x\<lparr>status := Closed, closed_at := Some now, updated_at := now\<rparr>
                             else x) (accounts d)"
      by blast
    with b show "b = True \<and>
            (\<exists>a \<in> set (accounts d). account_number a = n \<and> status a = Active \<and>
               accounts d' =
                 map (\<lambda>x. if acc_id x = acc_id a
                           then x\<lparr>status := Closed, closed_at := Some now, updated_at := now\<rparr>
                           else x) (accounts d))"
      by (rule conjI)
  qed
  have p3: "\<forall>a \<in> set (accounts d). account_number a = n \<and> status a = Active \<and> balance a \<noteq> 0 \<longrightarrow>
            call (\<lambda>s. close_account s now n reason) d = (Inl NonZeroBalance, d)"
  proof (intro ballI impI)
    fix a assume a: "a \<in> set (accounts d)"
      and p: "account_number a = n \<and> status a = Active \<and> balance a \<noteq> 0"
    from find_active_account_unique[OF assms a] p have f: "find_active_account d n = Some a"
      by simp
    have "close_account d now n reason = Inl NonZeroBalance"
      unfolding close_account_def f using p by simp
    then show "call (\<lambda>s. close_account s now n reason) d = (Inl NonZeroBalance, d)"
      by (simp add: call_def)
  qed
  from p1 p2 p3 show ?thesis by (intro conjI)
qed

lemma closing_db_schema_ok: "schema_ok closing_db"
  by (simp add: schema_ok_def closing_db_def example_db_def example_account_def)

theorem close_account_guard_witness:
  "schema_ok closing_db \<and>
   (\<exists>d'. close_account closing_db 1000 ''KB0000000003'' ''Customer request'' = Inr (True, d')) \<and>
   call (\<lambda>s. close_account s 1000 ''KB0000000001'' ''Customer request'') closing_db
     = (Inl NonZeroBalance, closing_db) \<and>
   call (\<lambda>s. close_account s 1000 ''KB0000000002'' ''Customer request'') closing_db
     = (Inl NonZeroBalance, closing_db)"
proof -
  have m: "example_account 1 ''KB0000000001'' 1 0 \<in> set (accounts closing_db)"
      "example_account 2 ''KB0000000002'' (- 1) 50000 \<in> set (accounts closing_db)"
      "example_account 3 ''KB0000000003'' 0 0 \<in> set (accounts closing_db)"
    by (simp_all add: closing_db_def example_db_def)
  have "\<exists>a \<in> set (accounts closing_db).
          account_number a = ''KB0000000003'' \<and> status a = Active \<and> balance a = 0"
    using m(3) by (rule bexI[rotated]) (simp add: example_account_def)
  with close_account_guard[OF closing_db_schema_ok, of 1000 "''KB0000000003''" "''Customer request''"]
  have s: "\<exists>d'. close_account closing_db 1000 ''KB0000000003'' ''Customer request'' = Inr (True, d')"
    by blast
  have n1: "call (\<lambda>s. close_account s 1000 ''KB0000000001'' ''Customer request'') closing_db
     = (Inl NonZeroBalance, closing_db)"
    using close_account_guard[OF closing_db_schema_ok, of 1000 "''KB0000000001''" "''Customer request''",
        THEN conjunct2, THEN conjunct2, rule_format, OF m(1)]
    by (simp add: example_account_def)
  have n2: "call (\<lambda>s. close_account s 1000 ''KB0000000002'' ''Customer request'') closing_db
     = (Inl NonZeroBalance, closing_db)"
    using close_account_guard[OF closing_db_schema_ok, of 1000 "''KB0000000002''" "''Customer request''",
        THEN conjunct2, THEN conjunct2, rule_format, OF m(2)]
    by (simp add: example_account_def)
  from closing_db_schema_ok s n1 n2 show ?thesis by blast
qed

end
